theory Spec2Isabelle
  imports Complex_Main "HOL-Library.Word"
begin

unbundle bit_operations_syntax

section \<open>RepRapFirmware G-code interpreter: the inline functions of GCodes.h\<close>

text \<open>
  \<^verbatim>\<open>GCodes.h\<close> declares the classes \<^verbatim>\<open>GCodeBuffer\<close> and \<^verbatim>\<open>GCodes\<close> and defines a handful
  of their member functions inline. The functions defined there are embedded below as
  they are written. C integers keep their width: \<^verbatim>\<open>int8_t\<close> is an 8-bit word read as
  two's complement, and \<^verbatim>\<open>int\<close> and \<^verbatim>\<open>long\<close> are 32-bit words, as they are on the 32-bit
  ARM the firmware is built for.
\<close>

type_synonym int8_t = "8 word"

text \<open>
  A \<^verbatim>\<open>float\<close> is a NaN, an infinity or a finite value. The functions embedded here only
  compare floats with constants and hand them on, so a finite float is represented by the
  real number it denotes; the two zeros compare equal and are both \<open>Finite 0\<close>.
  \<open>c_float_less\<close> is C's \<^verbatim>\<open><\<close> and \<open>c_float_le\<close> is C's \<^verbatim>\<open><=\<close>: both are false as soon as
  one side is a NaN.
\<close>

datatype c_float = NaN | MinusInf | Finite real | PlusInf

fun c_float_less :: "c_float \<Rightarrow> c_float \<Rightarrow> bool" where
  "c_float_less NaN y = False"
| "c_float_less x NaN = False"
| "c_float_less MinusInf MinusInf = False"
| "c_float_less MinusInf y = True"
| "c_float_less x MinusInf = False"
| "c_float_less PlusInf y = False"
| "c_float_less (Finite x) PlusInf = True"
| "c_float_less (Finite x) (Finite y) = (x < y)"

definition c_float_le :: "c_float \<Rightarrow> c_float \<Rightarrow> bool" where
  "c_float_le x y = (c_float_less x y \<or> (x = y \<and> x \<noteq> NaN))"

subsection \<open>Heater index translation\<close>

text \<open>
  \<^verbatim>\<open>inline int8_t GCodes::Heater(int8_t head) const { return head+1; }\<close>

  The operand \<^verbatim>\<open>head\<close> is promoted to \<^verbatim>\<open>int\<close>, so the sum itself cannot overflow; the
  \<^verbatim>\<open>return\<close> converts it back to \<^verbatim>\<open>int8_t\<close>, which keeps the low eight bits (the
  conversion the firmware's compiler, gcc, performs).
\<close>

definition Heater :: "int8_t \<Rightarrow> int8_t" where
  "Heater head = word_of_int (sint head + 1)"

subsection \<open>Fraction of the file printed\<close>

text \<open>
  The members of \<^verbatim>\<open>GCodes\<close> that \<^verbatim>\<open>FractionOfFilePrinted\<close> reads. The class \<^verbatim>\<open>FileStore\<close>
  is declared outside \<^verbatim>\<open>GCodes.h\<close>, so the type of files is a parameter \<open>'f\<close>. A
  \<^verbatim>\<open>FileStore*\<close> is an option: \<^verbatim>\<open>NULL\<close> is \<open>None\<close>. The member
  \<^verbatim>\<open>float fractionOfFilePrinted\<close> can hold any float, a NaN included.
\<close>

record 'f GCodes =
  fileBeingPrinted :: "'f option"
  fractionOfFilePrinted :: c_float

text \<open>
  \<^verbatim>\<open>
  inline float GCodes::FractionOfFilePrinted() const
  {
    if(fileBeingPrinted == NULL)
           return -1.0;
    if(fractionOfFilePrinted < 0.0)
        return fileBeingPrinted->FractionRead();
    return fractionOfFilePrinted;
  }
  \<close>
  The member function \<^verbatim>\<open>FileStore::FractionRead\<close> is the first argument: what it returns
  for a file. The constants \<^verbatim>\<open>-1.0\<close> and \<^verbatim>\<open>0.0\<close> are exact as floats.
\<close>

definition FractionOfFilePrinted :: "('f \<Rightarrow> c_float) \<Rightarrow> 'f GCodes \<Rightarrow> c_float" where
  "FractionOfFilePrinted FractionRead g =
     (case fileBeingPrinted g of
        None \<Rightarrow> Finite (- 1.0)
      | Some f \<Rightarrow>
          if c_float_less (fractionOfFilePrinted g) (Finite 0.0) then FractionRead f
          else fractionOfFilePrinted g)"

text \<open>
  The range the design document gives for \<^verbatim>\<open>FractionRead\<close>,
  \<^verbatim>\<open>fractionRead(handle) -> 0..1\<close>: a finite value from 0 to 1. It is a hypothesis where a
  property needs it.
\<close>

definition in_unit_range :: "c_float \<Rightarrow> bool" where
  "in_unit_range x = (case x of Finite v \<Rightarrow> 0 \<le> v \<and> v \<le> 1 | _ \<Rightarrow> False)"

section \<open>The command buffer\<close>


record GCodeBuffer =
  gcodeBuffer :: string
  gcodePointer :: nat
  readPointer :: int
  inComment :: bool
  finished :: bool
  writingFileDirectory :: "string option"


text \<open>
  Apart from \<^verbatim>\<open>GetIValue\<close>, the member functions below are declared in \<^verbatim>\<open>GCodes.h\<close> but
  their bodies are not part of the header. Each is modelled from the design document's
  description of the CommandBuffer (its section 4.1), of the command line protocol
  (section 6) and of the ParseError and ChecksumError (section 7).
\<close>



text \<open>
  Modelled from the spec: the part of the line that the field extractors (bodies missing)
  read. ``Comment text (from \<^verbatim>\<open>;\<close> to line end) is recorded but excluded from field
  parsing.''
\<close>

definition codeText :: "GCodeBuffer \<Rightarrow> string" where
  "codeText gb = takeWhile (\<lambda>c. c \<noteq> CHR '';'') (gcodeBuffer gb)"




















section \<open>Properties\<close>

subsection \<open>Heater\<close>

lemma sint_Heater: "h \<noteq> 127 \<Longrightarrow> sint (Heater h) = sint h + 1"
proof -
  assume h: "h \<noteq> 127"
  have "sint h \<noteq> 127"
  proof
    assume "sint h = 127"
    then have "word_of_int (sint h) = (word_of_int 127 :: int8_t)" by simp
    with h show False by simp
  qed
  moreover have "sint h < 128" "- 128 \<le> sint h"
    using sint_lt [of h] sint_ge [of h] by simp_all
  ultimately have "- 128 \<le> sint h + 1" "sint h + 1 < 128" by simp_all
  then have "(sint h + 1 + 128) mod 256 = sint h + 1 + 128"
    by (intro mod_pos_pos_trivial) simp_all
  then show ?thesis
    unfolding Heater_def int_word_sint by simp
qed

lemma sint_Heater_127: "sint (Heater 127) = - 128"
  by (simp add: Heater_def)

text \<open>
  C10, as stated: for every head index \<open>h\<close>, \<open>Heater h\<close> returns \<open>h + 1\<close>. At the largest
  \<^verbatim>\<open>int8_t\<close> this fails: the value returned for 127 is not 128.
\<close>

theorem Heater_127_counterexample: "sint (Heater 127) \<noteq> sint (127 :: int8_t) + 1"
  by (simp add: Heater_def)

text \<open>
  C10, amended: for every head index \<open>h\<close> other than 127, \<open>Heater h\<close> returns \<open>h + 1\<close>; for
  127, the largest \<^verbatim>\<open>int8_t\<close>, the sum does not fit the return type and \<open>-128\<close> is returned.
\<close>

theorem Heater_shift:
  "(h \<noteq> 127 \<longrightarrow> sint (Heater h) = sint h + 1) \<and> (h = 127 \<longrightarrow> sint (Heater h) = - 128)"
  using sint_Heater sint_Heater_127 by blast

theorem Heater_shift_witness:
  "(0 :: int8_t) \<noteq> 127 \<and> sint (Heater 0) = 1 \<and> sint (Heater 127) = - 128"
  using Heater_shift [of 0] Heater_shift [of 127] by simp

subsection \<open>FractionOfFilePrinted\<close>

lemma not_less_zero:
  "(\<not> c_float_less x (Finite 0)) = (c_float_le (Finite 0) x \<or> x = NaN)"
  by (cases x) (auto simp: c_float_le_def)

lemma not_less_zero_ne: "\<not> c_float_less x (Finite 0) \<Longrightarrow> x \<noteq> Finite (- 1)"
  by (cases x) auto

lemma FractionOfFilePrinted_no_file:
  "fileBeingPrinted g = None \<Longrightarrow> FractionOfFilePrinted FractionRead g = Finite (- 1)"
  by (simp add: FractionOfFilePrinted_def)

lemma FractionOfFilePrinted_file:
  "fileBeingPrinted g = Some f \<Longrightarrow>
   FractionOfFilePrinted FractionRead g =
     (if c_float_le (Finite 0) (fractionOfFilePrinted g) \<or> fractionOfFilePrinted g = NaN
      then fractionOfFilePrinted g else FractionRead f)"
  by (simp add: FractionOfFilePrinted_def not_less_zero [symmetric])

text \<open>
  C9, as stated: with a file being printed the function returns the saved fraction when
  that is non-negative, and otherwise the file's \<open>FractionRead\<close>. This fails when the saved
  fraction is a NaN: a NaN is not non-negative, yet \<^verbatim>\<open>NaN < 0.0\<close> is false and the NaN is
  returned, not the \<open>FractionRead\<close> of one half.
\<close>

theorem FractionOfFilePrinted_NaN_counterexample:
  "\<not> c_float_le (Finite 0) NaN \<and>
   FractionOfFilePrinted (\<lambda>f :: nat. Finite (1 / 2))
     \<lparr>fileBeingPrinted = Some 7, fractionOfFilePrinted = NaN\<rparr> \<noteq> Finite (1 / 2)"
  by (simp add: FractionOfFilePrinted_def c_float_le_def)

text \<open>
  C9, amended: with no file being printed \<open>FractionOfFilePrinted\<close> returns \<open>-1.0\<close>; with a
  file being printed it returns the saved fraction when that is non-negative (the
  fraction of the main file, saved while a macro runs) or a NaN, and the file's
  \<open>FractionRead\<close> otherwise, that is when the saved fraction is less than \<open>0.0\<close>. It returns
  \<open>-1.0\<close> exactly when no file is being printed, given that \<open>FractionRead\<close> stays in the
  range \<open>0..1\<close> of the file-storage interface.
\<close>

theorem FractionOfFilePrinted_cases:
  "(fileBeingPrinted g = None \<longrightarrow> FractionOfFilePrinted FractionRead g = Finite (- 1)) \<and>
   (\<forall>f. fileBeingPrinted g = Some f \<longrightarrow>
      FractionOfFilePrinted FractionRead g =
        (if c_float_le (Finite 0) (fractionOfFilePrinted g) \<or> fractionOfFilePrinted g = NaN
         then fractionOfFilePrinted g else FractionRead f)) \<and>
   ((\<forall>f. fileBeingPrinted g = Some f \<longrightarrow> in_unit_range (FractionRead f)) \<longrightarrow>
      (FractionOfFilePrinted FractionRead g = Finite (- 1) \<longleftrightarrow> fileBeingPrinted g = None))"
proof (cases "fileBeingPrinted g")
  case None
  then show ?thesis by (simp add: FractionOfFilePrinted_no_file)
next
  case (Some f)
  have "FractionOfFilePrinted FractionRead g \<noteq> Finite (- 1)" if r: "in_unit_range (FractionRead f)"
  proof (cases "c_float_less (fractionOfFilePrinted g) (Finite 0)")
    case True
    with Some have "FractionOfFilePrinted FractionRead g = FractionRead f"
      by (simp add: FractionOfFilePrinted_def)
    with r show ?thesis by (auto simp: in_unit_range_def split: c_float.splits)
  next
    case False
    with Some have "FractionOfFilePrinted FractionRead g = fractionOfFilePrinted g"
      by (simp add: FractionOfFilePrinted_def)
    with False show ?thesis by (simp add: not_less_zero_ne)
  qed
  with Some show ?thesis by (simp add: FractionOfFilePrinted_file)
qed

text \<open>
  Four states, with files named by numbers and \<open>FractionRead\<close> returning one half for each:
  no file; a file and the saved fraction \<open>-1.0\<close>; a file and the saved fraction one
  quarter; a file and a NaN saved.
\<close>

theorem FractionOfFilePrinted_cases_witness:
  "FractionOfFilePrinted (\<lambda>f :: nat. Finite (1 / 2))
     \<lparr>fileBeingPrinted = None, fractionOfFilePrinted = Finite (- 1)\<rparr> = Finite (- 1) \<and>
   FractionOfFilePrinted (\<lambda>f :: nat. Finite (1 / 2))
     \<lparr>fileBeingPrinted = Some 7, fractionOfFilePrinted = Finite (- 1)\<rparr> = Finite (1 / 2) \<and>
   FractionOfFilePrinted (\<lambda>f :: nat. Finite (1 / 2))
     \<lparr>fileBeingPrinted = Some 7, fractionOfFilePrinted = Finite (1 / 4)\<rparr> = Finite (1 / 4) \<and>
   FractionOfFilePrinted (\<lambda>f :: nat. Finite (1 / 2))
     \<lparr>fileBeingPrinted = Some 7, fractionOfFilePrinted = NaN\<rparr> = NaN \<and>
   FractionOfFilePrinted (\<lambda>f :: nat. Finite (1 / 2))
     \<lparr>fileBeingPrinted = Some 7, fractionOfFilePrinted = Finite (- 1)\<rparr> \<noteq> Finite (- 1)"
  using
    FractionOfFilePrinted_cases
      [of "\<lparr>fileBeingPrinted = None, fractionOfFilePrinted = Finite (- 1)\<rparr>"
          "\<lambda>f :: nat. Finite (1 / 2)"]
    FractionOfFilePrinted_cases
      [of "\<lparr>fileBeingPrinted = Some 7, fractionOfFilePrinted = Finite (- 1)\<rparr>"
          "\<lambda>f :: nat. Finite (1 / 2)"]
    FractionOfFilePrinted_cases
      [of "\<lparr>fileBeingPrinted = Some 7, fractionOfFilePrinted = Finite (1 / 4)\<rparr>"
          "\<lambda>f :: nat. Finite (1 / 2)"]
    FractionOfFilePrinted_cases
      [of "\<lparr>fileBeingPrinted = Some 7, fractionOfFilePrinted = NaN\<rparr>"
          "\<lambda>f :: nat. Finite (1 / 2)"]
  by (simp add: c_float_le_def in_unit_range_def)

subsection \<open>Checksum and resend\<close>












lemma codeText_readPointer [simp]: "codeText (gb\<lparr>readPointer := p\<rparr>) = codeText gb"
  by (simp add: codeText_def)












end
